theory Spec2Isabelle
  imports Complex_Main
begin

section \<open>Values, errors and console output\<close>

text \<open>
  The scripts compute with floating-point numbers. They are embedded as \<^typ>\<open>real\<close>:
  rounding is not modelled, every comparison and every branch is the one the source
  takes on the exact values. Indices are \<^typ>\<open>int\<close> where the source can produce a
  negative one, \<^typ>\<open>nat\<close> where it cannot. This suits the properties of order and of
  control flow below. \<open>get_tic_normalized_amino_acid_values\<close> is not embedded: what it
  computes is one rounded division and one rounded multiplication per value, and
  whether these can be undone exactly is a property of the rounding itself.

  An exception is a value of \<open>error\<close> on the left of a sum. A line written by
  \<open>print\<close> is a value of \<open>out_line\<close>; the text of a printed float is not modelled, so
  a line keeps the printed values themselves.
\<close>

datatype error = IndexError | ZeroDivisionError | ValueError string

datatype out_line =
    PpmsLine real real        \<comment> \<open>\<open>print("ppms:", previous_peak_ppm, next_peak_ppm)\<close>\<close>
  | NotInIonsNames string     \<comment> \<open>\<open>print(name, "is not in ions names")\<close>\<close>

text \<open>
  \<open>xs[i]\<close> on a Python sequence: positions \<open>0 \<dots> len - 1\<close> from the start, \<open>-1 \<dots> -len\<close>
  from the end, IndexError elsewhere.
\<close>

definition py_index :: "'a list \<Rightarrow> int \<Rightarrow> error + 'a" where
  "py_index xs i =
     (if 0 \<le> i \<and> i < int (length xs) then Inr (xs ! nat i)
      else if i < 0 \<and> - int (length xs) \<le> i then Inr (xs ! nat (int (length xs) + i))
      else Inl IndexError)"

section \<open>The peak locator\<close>

text \<open>
  \<^verbatim>\<open>abs(mz - ion_mz) / ion_mz * 10 ** 6\<close>, for \<open>ion_mz\<close> other than zero (the caller
  below tests that before it divides).
\<close>

definition ppm_error :: "real \<Rightarrow> real \<Rightarrow> real" where
  "ppm_error mz ion_mz = \<bar>mz - ion_mz\<bar> / ion_mz * 10 ^ 6"

text \<open>
  The scan of \<open>find_closest_ion_mz_index\<close>, from a given value of \<open>closest_index\<close>:
  \<^verbatim>\<open>
  while mz_axis[closest_index] < ion_mz and closest_index+1 < len(mz_axis):
      closest_index += 1
  \<close>
  Reading \<open>mz_axis[closest_index]\<close> beyond the end raises IndexError (this happens on
  the empty axis only). The recursion is well-founded on the distance of the index to
  the end of the axis.
\<close>

function scan_axis :: "real list \<Rightarrow> real \<Rightarrow> nat \<Rightarrow> error + nat" where
  "scan_axis mz_axis ion_mz closest_index =
     (if length mz_axis \<le> closest_index then Inl IndexError
      else if mz_axis ! closest_index < ion_mz \<and> closest_index + 1 < length mz_axis
      then scan_axis mz_axis ion_mz (closest_index + 1)
      else Inr closest_index)"
  by pat_completeness auto
termination
  by (relation "measure (\<lambda>(mz_axis, ion_mz, closest_index). length mz_axis - closest_index)") auto

declare scan_axis.simps [simp del]

text \<open>
  \<open>find_closest_ion_mz_index\<close>. The tolerance \<open>allowed_ppm_error\<close> is a constant of
  \<open>src.constants\<close>, a module that is not part of the sources at hand; it is a parameter
  here. The result is the lines printed and the outcome: the index returned, or the
  exception raised.

  The division by \<open>ion_mz\<close> is written out: Python's float division by zero raises
  ZeroDivisionError. (On numpy scalars the same division yields a non-finite value
  instead, which fails both tolerance tests, so that the ValueError of the last branch
  is raised; in both readings no index is returned for \<open>ion_mz = 0\<close>.)
\<close>

definition find_closest_ion_mz_index ::
    "real \<Rightarrow> real list \<Rightarrow> real \<Rightarrow> out_line list \<times> (error + int)" where
  "find_closest_ion_mz_index allowed_ppm_error mz_axis ion_mz =
     (case scan_axis mz_axis ion_mz 0 of
        Inl e \<Rightarrow> ([], Inl e)
      | Inr closest_index \<Rightarrow>
          (case py_index mz_axis (int closest_index - 1) of
             Inl e \<Rightarrow> ([], Inl e)
           | Inr previous_mz \<Rightarrow>
               if ion_mz = 0 then ([], Inl ZeroDivisionError)
               else
                 (case py_index mz_axis (int closest_index) of
                    Inl e \<Rightarrow> ([], Inl e)
                  | Inr next_mz \<Rightarrow>
                      (let previous_peak_ppm = ppm_error previous_mz ion_mz;
                           next_peak_ppm = ppm_error next_mz ion_mz
                       in if previous_peak_ppm \<le> next_peak_ppm
                             \<and> previous_peak_ppm \<le> allowed_ppm_error
                          then ([], Inr (int closest_index - 1))
                          else if previous_peak_ppm > next_peak_ppm
                             \<and> next_peak_ppm \<le> allowed_ppm_error
                          then ([], Inr (int closest_index))
                          else ([PpmsLine previous_peak_ppm next_peak_ppm],
                                Inl (ValueError ''No ion within current ppm identified!''))))))"

text \<open>
  The position read by \<open>mz_axis[closest_index-1]\<close> on an axis of \<open>n\<close> points: the
  one before \<open>closest_index\<close>, and the last one when \<open>closest_index\<close> is 0.
\<close>

definition wrapped_pos :: "nat \<Rightarrow> nat \<Rightarrow> nat" where
  "wrapped_pos n p = (if p = 0 then n - 1 else p - 1)"

section \<open>Locating the amino acids\<close>

text \<open>
  \<open>ions_names.index(name)\<close>: the first position of \<open>name\<close>; Python raises ValueError
  when there is none (the quotes that Python puts around the name in the message are
  left out).
\<close>

fun list_index :: "string list \<Rightarrow> string \<Rightarrow> error + nat" where
  "list_index [] name = Inl (ValueError (name @ '' is not in list''))"
| "list_index (x # xs) name =
     (if x = name then Inr 0
      else (case list_index xs name of Inl e \<Rightarrow> Inl e | Inr i \<Rightarrow> Inr (Suc i)))"

text \<open>
  \<^verbatim>\<open>find_closest_ion_mz_index(mz_axis, ions_mzs[ions_names.index(name)])\<close>: the lookup
  of one named analyte, with what it prints.
\<close>

definition locate ::
    "real \<Rightarrow> real list \<Rightarrow> string list \<Rightarrow> real list \<Rightarrow> string \<Rightarrow>
     out_line list \<times> (error + int)" where
  "locate allowed_ppm_error ions_mzs ions_names mz_axis name =
     (case list_index ions_names name of
        Inl e \<Rightarrow> ([], Inl e)
      | Inr aa_index \<Rightarrow>
          (case py_index ions_mzs (int aa_index) of
             Inl e \<Rightarrow> ([], Inl e)
           | Inr ion_mz \<Rightarrow> find_closest_ion_mz_index allowed_ppm_error mz_axis ion_mz))"

text \<open>
  The loop of \<open>get_amino_acids_indices_in_data\<close> over the reference list
  \<open>amino_acids\<close> (a constant of \<open>src.constants\<close>, a list of pairs whose first component
  is the name; a parameter here). The two result lists and the console output are
  threaded through the loop; an exception of the lookup is not caught and ends it.
\<close>

fun aa_loop ::
    "real \<Rightarrow> real list \<Rightarrow> string list \<Rightarrow> real list \<Rightarrow> (string \<times> 'a) list \<Rightarrow>
     int list \<Rightarrow> string list \<Rightarrow> out_line list \<Rightarrow>
     out_line list \<times> (error + int list \<times> string list)" where
  "aa_loop allowed_ppm_error ions_mzs ions_names mz_axis [] aa_mz_indices aa_names out =
     (out, Inr (aa_mz_indices, aa_names))"
| "aa_loop allowed_ppm_error ions_mzs ions_names mz_axis ((name, _) # rest)
       aa_mz_indices aa_names out =
     (if name \<in> set ions_names then
        (case locate allowed_ppm_error ions_mzs ions_names mz_axis name of
           (printed, Inl e) \<Rightarrow> (out @ printed, Inl e)
         | (printed, Inr k) \<Rightarrow>
             aa_loop allowed_ppm_error ions_mzs ions_names mz_axis rest
               (aa_mz_indices @ [k]) (aa_names @ [name]) (out @ printed))
      else
        aa_loop allowed_ppm_error ions_mzs ions_names mz_axis rest
          aa_mz_indices aa_names (out @ [NotInIonsNames name]))"

definition get_amino_acids_indices_in_data ::
    "real \<Rightarrow> (string \<times> 'a) list \<Rightarrow> real list \<Rightarrow> string list \<Rightarrow> real list \<Rightarrow>
     out_line list \<times> (error + int list \<times> string list)" where
  "get_amino_acids_indices_in_data allowed_ppm_error amino_acids ions_mzs ions_names mz_axis =
     aa_loop allowed_ppm_error ions_mzs ions_names mz_axis amino_acids [] [] []"

section \<open>Arrays and the experiments of a sample table\<close>

text \<open>
  The intensity array \<open>data\<close> is a two-dimensional numpy array indexed by
  (peak, sample). It is given by its rows, all of the same length; an array without
  rows is taken to have no columns.
\<close>

definition n_cols :: "real list list \<Rightarrow> nat" where
  "n_cols data = (case data of [] \<Rightarrow> 0 | row # _ \<Rightarrow> length row)"

text \<open>A loop that builds a list and stops at the first exception.\<close>

fun map_err :: "('a \<Rightarrow> error + 'b) \<Rightarrow> 'a list \<Rightarrow> error + 'b list" where
  "map_err f [] = Inr []"
| "map_err f (x # xs) =
     (case f x of
        Inl e \<Rightarrow> Inl e
      | Inr y \<Rightarrow> (case map_err f xs of Inl e \<Rightarrow> Inl e | Inr ys \<Rightarrow> Inr (y # ys)))"

text \<open>\<^verbatim>\<open>numpy.where(numpy.array(colnames) == id)[0]\<close>: the columns of one experiment.\<close>

definition columns_of :: "string list \<Rightarrow> string \<Rightarrow> nat list" where
  "columns_of colnames experiment_id =
     filter (\<lambda>c. colnames ! c = experiment_id) [0..<length colnames]"

section \<open>Batch assignment for the statistical correction\<close>

text \<open>\<open>str(i)\<close> for a natural number: its decimal digits.\<close>

fun str_nat :: "nat \<Rightarrow> string" where
  "str_nat i =
     (if i < 10 then [char_of (48 + i)]
      else str_nat (i div 10) @ [char_of (48 + i mod 10)])"

declare str_nat.simps [simp del]

text \<open>
  \<^verbatim>\<open>[colnames[i] + sharp + str(i) for i in range(len(colnames))]\<close>, with the delimiter
  \<open>sharp\<close> (the constant \<open>experiment_name_delimeter\<close> of \<open>src.constants\<close>) as a
  parameter.
\<close>

definition unique_cols :: "string \<Rightarrow> string list \<Rightarrow> string list" where
  "unique_cols sharp colnames =
     map (\<lambda>i. colnames ! i @ sharp @ str_nat i) [0..<length colnames]"

text \<open>
  \<^verbatim>\<open>flatten([[i, i, i] for i in range(len(colnames) // n)])\<close>, where \<open>n\<close> is the
  constant \<open>number_of_replicates\<close> of \<open>src.constants\<close>, a parameter here. The integer
  division raises ZeroDivisionError for \<open>n = 0\<close>.
\<close>

definition assign_batches :: "nat \<Rightarrow> string list \<Rightarrow> error + int list" where
  "assign_batches n colnames =
     (if n = 0 then Inl ZeroDivisionError
      else Inr (concat (map (\<lambda>i. [int i, int i, int i]) [0..<length colnames div n])))"

text \<open>
  pandas refuses a list of labels whose length is not that of the axis it is assigned
  to, with this ValueError.
\<close>

definition length_mismatch :: "nat \<Rightarrow> nat \<Rightarrow> error" where
  "length_mismatch expected new =
     ValueError (''Length mismatch: Expected axis has '' @ str_nat expected
       @ '' elements, new values have '' @ str_nat new @ '' elements'')"

text \<open>
  The first part of \<open>get_combat_normalized_amino_acid_values\<close>, up to the call of
  \<open>combat\<close>: the result is the pair of arguments the procedure is called with, the
  table with its column labels and the batch label of every column label.
  \<^item> \<open>data.columns = unique_cols\<close> needs as many labels as the table has columns;
  \<^item> \<open>pandas.DataFrame(batches)\<close> has one column, and none when \<open>batches\<close> is empty, in
    which case \<open>batches.columns = ["batch"]\<close> is refused;
  \<^item> \<open>batches.index = unique_cols\<close> needs as many labels as there are batch entries.
\<close>

definition combat_arguments ::
    "nat \<Rightarrow> string \<Rightarrow> real list list \<Rightarrow> string list \<Rightarrow>
     error + (string list \<times> real list list) \<times> (string \<times> int) list" where
  "combat_arguments n sharp data colnames =
     (let cols = unique_cols sharp colnames
      in if n_cols data \<noteq> length cols
         then Inl (length_mismatch (n_cols data) (length cols))
         else
           (case assign_batches n colnames of
              Inl e \<Rightarrow> Inl e
            | Inr batches \<Rightarrow>
                if batches = [] then Inl (length_mismatch 0 1)
                else if length batches \<noteq> length cols
                then Inl (length_mismatch (length batches) (length cols))
                else Inr ((cols, data), zip cols batches)))"

text \<open>
  \<open>get_intensities_data_structure\<close>: for every located index and every experiment, the
  entries \<^verbatim>\<open>data[mz_index, numpy.where(numpy.array(colnames) == id)[0]]\<close>. The row index
  may be negative. The source takes \<open>experiment_ids = list(set(colnames))\<close>, whose
  order is that of Python's set iteration; the list is the parameter \<open>experiment_ids\<close>.
\<close>

definition get_intensities_data_structure ::
    "string list \<Rightarrow> real list list \<Rightarrow> string list \<Rightarrow> int list \<Rightarrow>
     error + real list list list" where
  "get_intensities_data_structure experiment_ids data colnames aa_mz_indices =
     map_err
       (\<lambda>mz_index.
          map_err
            (\<lambda>experiment_id.
               (case py_index data mz_index of
                  Inl e \<Rightarrow> Inl e
                | Inr row \<Rightarrow>
                    map_err (\<lambda>c. py_index row (int c)) (columns_of colnames experiment_id)))
            experiment_ids)
       aa_mz_indices"

text \<open>
  \<open>get_combat_normalized_amino_acid_values\<close>. The procedure \<open>combat\<close> of
  \<open>src.utils.combat\<close> is not part of the sources at hand and is a parameter: any
  function from its two arguments to an adjusted array.
\<close>

definition get_combat_normalized_amino_acid_values ::
    "nat \<Rightarrow> string \<Rightarrow>
     (string list \<times> real list list \<Rightarrow> (string \<times> int) list \<Rightarrow> real list list) \<Rightarrow>
     string list \<Rightarrow> real list list \<Rightarrow> string list \<Rightarrow> int list \<Rightarrow>
     error + real list list list" where
  "get_combat_normalized_amino_acid_values n sharp combat experiment_ids data colnames aa_mz_indices =
     (case combat_arguments n sharp data colnames of
        Inl e \<Rightarrow> Inl e
      | Inr (table, batch) \<Rightarrow>
          get_intensities_data_structure experiment_ids (combat table batch)
            colnames aa_mz_indices)"

section \<open>The autoencoder\<close>

text \<open>
  A tensor of shape (batch, features) is the list of its rows. \<open>nn.Linear\<close> holds a
  weight matrix with one row per output feature and a bias; it maps a row \<open>x\<close> to
  \<open>x W\<^sup>T + b\<close> and refuses (RuntimeError) a row whose length is not \<open>in_features\<close>.
\<close>

datatype torch_error = RuntimeError

record linear =
  in_features :: nat
  weight :: "real list list"
  bias :: "real list"

definition linear_row :: "linear \<Rightarrow> real list \<Rightarrow> torch_error + real list" where
  "linear_row l x =
     (if length x \<noteq> in_features l then Inl RuntimeError
      else Inr (map (\<lambda>(w, b). sum_list (map (\<lambda>(wi, xi). wi * xi) (zip w x)) + b)
                  (zip (weight l) (bias l))))"

fun linear_apply :: "linear \<Rightarrow> real list list \<Rightarrow> torch_error + real list list" where
  "linear_apply l [] = Inr []"
| "linear_apply l (x # xs) =
     (case linear_row l x of
        Inl e \<Rightarrow> Inl e
      | Inr y \<Rightarrow> (case linear_apply l xs of Inl e \<Rightarrow> Inl e | Inr ys \<Rightarrow> Inr (y # ys)))"

text \<open>
  The activations, with the defaults of \<open>nn.LeakyReLU()\<close> (slope 0.01) and \<open>nn.CELU()\<close>
  (\<open>alpha = 1\<close>), applied to every entry.
\<close>

definition LeakyReLU :: "real \<Rightarrow> real" where
  "LeakyReLU x = max 0 x + 0.01 * min 0 x"

definition CELU :: "real \<Rightarrow> real" where
  "CELU x = max 0 x + min 0 (1 * (exp (x / 1) - 1))"

definition activate :: "(real \<Rightarrow> real) \<Rightarrow> real list list \<Rightarrow> real list list" where
  "activate f t = map (map f) t"

record AE =
  e1 :: linear
  e2 :: linear
  d1 :: linear
  d2 :: linear

definition AE_encode :: "AE \<Rightarrow> real list list \<Rightarrow> torch_error + real list list" where
  "AE_encode self features =
     (case linear_apply (e1 self) features of
        Inl e \<Rightarrow> Inl e
      | Inr encoded1 \<Rightarrow>
          (case linear_apply (e2 self) (activate LeakyReLU encoded1) of
             Inl e \<Rightarrow> Inl e
           | Inr encoded2 \<Rightarrow> Inr (activate CELU encoded2)))"

definition AE_decode :: "AE \<Rightarrow> real list list \<Rightarrow> torch_error + real list list" where
  "AE_decode self encoded =
     (case linear_apply (d1 self) encoded of
        Inl e \<Rightarrow> Inl e
      | Inr decoded1 \<Rightarrow>
          (case linear_apply (d2 self) (activate LeakyReLU decoded1) of
             Inl e \<Rightarrow> Inl e
           | Inr decoded2 \<Rightarrow> Inr (activate CELU decoded2)))"

definition AE_forward :: "AE \<Rightarrow> real list list \<Rightarrow> torch_error + real list list" where
  "AE_forward self features =
     (case linear_apply (e1 self) features of
        Inl e \<Rightarrow> Inl e
      | Inr encoded1 \<Rightarrow>
          (case linear_apply (e2 self) (activate LeakyReLU encoded1) of
             Inl e \<Rightarrow> Inl e
           | Inr encoded2 \<Rightarrow>
               (case linear_apply (d1 self) (activate CELU encoded2) of
                  Inl e \<Rightarrow> Inl e
                | Inr decoded1 \<Rightarrow>
                    (case linear_apply (d2 self) (activate LeakyReLU decoded1) of
                       Inl e \<Rightarrow> Inl e
                     | Inr decoded2 \<Rightarrow> Inr (activate CELU decoded2)))))"

section \<open>Properties of the scan\<close>

lemma scan_axis_returns:
  "closest_index < length mz_axis \<Longrightarrow>
     \<exists>p. scan_axis mz_axis ion_mz closest_index = Inr p"
proof (induction mz_axis ion_mz closest_index rule: scan_axis.induct)
  case (1 mz_axis ion_mz closest_index)
  show ?case
  proof (cases "mz_axis ! closest_index < ion_mz \<and> closest_index + 1 < length mz_axis")
    case True
    with "1.IH" "1.prems" obtain p where
      "scan_axis mz_axis ion_mz (closest_index + 1) = Inr p" by auto
    with True "1.prems" show ?thesis
      by (subst scan_axis.simps) simp
  next
    case False
    with "1.prems" show ?thesis
      by (subst scan_axis.simps) auto
  qed
qed

lemma scan_axis_position:
  "scan_axis mz_axis ion_mz closest_index = Inr p \<Longrightarrow>
     closest_index \<le> p \<and> p < length mz_axis
     \<and> (\<forall>i. closest_index \<le> i \<and> i < p \<longrightarrow> mz_axis ! i < ion_mz)
     \<and> (ion_mz \<le> mz_axis ! p \<or> p + 1 = length mz_axis)"
proof (induction mz_axis ion_mz closest_index rule: scan_axis.induct)
  case (1 mz_axis ion_mz closest_index)
  have inside: "closest_index < length mz_axis"
    using "1.prems" by (subst (asm) scan_axis.simps) (auto split: if_splits)
  show ?case
  proof (cases "mz_axis ! closest_index < ion_mz \<and> closest_index + 1 < length mz_axis")
    case True
    with inside "1.prems" have rec: "scan_axis mz_axis ion_mz (closest_index + 1) = Inr p"
      by (subst (asm) scan_axis.simps) simp
    from "1.IH" [OF _ True rec] inside
    have ih: "closest_index + 1 \<le> p \<and> p < length mz_axis
        \<and> (\<forall>i. closest_index + 1 \<le> i \<and> i < p \<longrightarrow> mz_axis ! i < ion_mz)
        \<and> (ion_mz \<le> mz_axis ! p \<or> p + 1 = length mz_axis)"
      by simp
    have "\<forall>i. closest_index \<le> i \<and> i < p \<longrightarrow> mz_axis ! i < ion_mz"
    proof (intro allI impI)
      fix i assume i: "closest_index \<le> i \<and> i < p"
      show "mz_axis ! i < ion_mz"
      proof (cases "i = closest_index")
        case True
        with \<open>mz_axis ! closest_index < ion_mz \<and> closest_index + 1 < length mz_axis\<close>
        show ?thesis by simp
      next
        case False
        with i have "closest_index + 1 \<le> i \<and> i < p" by simp
        with ih show ?thesis by blast
      qed
    qed
    with ih show ?thesis by simp
  next
    case False
    with inside "1.prems" have "p = closest_index"
      by (subst (asm) scan_axis.simps) (auto split: if_splits)
    with False inside show ?thesis by auto
  qed
qed

lemma py_index_inside: "i < length xs \<Longrightarrow> py_index xs (int i) = Inr (xs ! i)"
  by (simp add: py_index_def)

lemma py_index_before:
  "p < length xs \<Longrightarrow> py_index xs (int p - 1) = Inr (xs ! wrapped_pos (length xs) p)"
proof (cases p)
  case 0
  assume "p < length xs"
  with 0 have len: "0 < length xs" by simp
  then have "nat (int (length xs) - 1) = length xs - 1" by simp
  moreover from len have "- int (length xs) \<le> - 1" by (cases xs) simp_all
  ultimately show ?thesis
    using 0 by (simp add: py_index_def wrapped_pos_def)
next
  case (Suc q)
  assume "p < length xs"
  with Suc show ?thesis
    by (simp add: py_index_def wrapped_pos_def)
qed

lemma find_closest_unfold:
  assumes "scan_axis mz_axis ion_mz 0 = Inr p" and "ion_mz \<noteq> 0"
  shows "find_closest_ion_mz_index allowed mz_axis ion_mz =
     (let previous_peak_ppm = ppm_error (mz_axis ! wrapped_pos (length mz_axis) p) ion_mz;
          next_peak_ppm = ppm_error (mz_axis ! p) ion_mz
      in if previous_peak_ppm \<le> next_peak_ppm \<and> previous_peak_ppm \<le> allowed
         then ([], Inr (int p - 1))
         else if previous_peak_ppm > next_peak_ppm \<and> next_peak_ppm \<le> allowed
         then ([], Inr (int p))
         else ([PpmsLine previous_peak_ppm next_peak_ppm],
               Inl (ValueError ''No ion within current ppm identified!'')))"
proof -
  from assms(1) have "p < length mz_axis" by (simp add: scan_axis_position)
  then show ?thesis
    using assms by (simp add: find_closest_ion_mz_index_def py_index_inside py_index_before)
qed

lemma ppm_error_mono:
  "0 < ion_mz \<Longrightarrow> \<bar>a - ion_mz\<bar> \<le> \<bar>b - ion_mz\<bar> \<Longrightarrow> ppm_error a ion_mz \<le> ppm_error b ion_mz"
  by (simp add: ppm_error_def divide_right_mono)

lemma neighbours_nearest:
  assumes srt: "sorted mz_axis" and scan: "scan_axis mz_axis ion_mz 0 = Inr p"
    and x: "x \<in> set mz_axis"
  shows "\<bar>mz_axis ! wrapped_pos (length mz_axis) p - ion_mz\<bar> \<le> \<bar>x - ion_mz\<bar>
       \<or> \<bar>mz_axis ! p - ion_mz\<bar> \<le> \<bar>x - ion_mz\<bar>"
proof -
  from scan_axis_position [OF scan]
  have p: "p < length mz_axis"
    and below: "\<forall>i. i < p \<longrightarrow> mz_axis ! i < ion_mz"
    and stop: "ion_mz \<le> mz_axis ! p \<or> p + 1 = length mz_axis"
    by auto
  from x obtain i where i: "i < length mz_axis" "x = mz_axis ! i"
    by (auto simp: in_set_conv_nth)
  show ?thesis
  proof (cases "i < p")
    case True
    then have "p \<noteq> 0" by simp
    then have w: "wrapped_pos (length mz_axis) p = p - 1" by (simp add: wrapped_pos_def)
    from True have "i \<le> p - 1" by simp
    with srt p have "mz_axis ! i \<le> mz_axis ! (p - 1)"
      by (simp add: sorted_iff_nth_mono)
    moreover from below \<open>p \<noteq> 0\<close> have "mz_axis ! (p - 1) < ion_mz" by simp
    ultimately show ?thesis using i w by simp
  next
    case False
    then have "p \<le> i" by simp
    with srt i have le: "mz_axis ! p \<le> mz_axis ! i"
      by (simp add: sorted_iff_nth_mono)
    from stop show ?thesis
    proof
      assume "ion_mz \<le> mz_axis ! p"
      with le i show ?thesis by simp
    next
      assume "p + 1 = length mz_axis"
      with \<open>p \<le> i\<close> i have "i = p" by simp
      with i show ?thesis by simp
    qed
  qed
qed

text \<open>
  Claim C1. On a sorted axis, for a positive target that some axis entry matches within
  the tolerance, the locator returns an index. The scan has stopped at the first
  position whose entry is not less than the target (at the last position when there is
  none); the index returned is that position or the one before it; and the entry it
  denotes (by Python indexing) has a ppm error not greater than that of either
  candidate, is within the tolerance, and has the least ppm error of all entries of
  the axis.
\<close>

theorem find_closest_ion_mz_index_minimal:
  assumes srt: "sorted mz_axis" and pos: "0 < ion_mz"
    and near: "\<exists>x \<in> set mz_axis. ppm_error x ion_mz \<le> allowed"
  shows "\<exists>p k previous_mz next_mz mz.
      scan_axis mz_axis ion_mz 0 = Inr p
    \<and> p < length mz_axis
    \<and> (\<forall>i < p. mz_axis ! i < ion_mz)
    \<and> (ion_mz \<le> mz_axis ! p \<or> p + 1 = length mz_axis)
    \<and> py_index mz_axis (int p - 1) = Inr previous_mz
    \<and> py_index mz_axis (int p) = Inr next_mz
    \<and> find_closest_ion_mz_index allowed mz_axis ion_mz = ([], Inr k)
    \<and> (k = int p - 1 \<or> k = int p)
    \<and> py_index mz_axis k = Inr mz
    \<and> ppm_error mz ion_mz \<le> ppm_error previous_mz ion_mz
    \<and> ppm_error mz ion_mz \<le> ppm_error next_mz ion_mz
    \<and> ppm_error mz ion_mz \<le> allowed
    \<and> (\<forall>x \<in> set mz_axis. ppm_error mz ion_mz \<le> ppm_error x ion_mz)"
proof -
  from near obtain y where y: "y \<in> set mz_axis" "ppm_error y ion_mz \<le> allowed" by blast
  then have "0 < length mz_axis" by (cases mz_axis) auto
  then obtain p where scan: "scan_axis mz_axis ion_mz 0 = Inr p"
    using scan_axis_returns by blast
  from scan_axis_position [OF scan]
  have p: "p < length mz_axis"
    and below: "\<forall>i < p. mz_axis ! i < ion_mz"
    and stop: "ion_mz \<le> mz_axis ! p \<or> p + 1 = length mz_axis"
    by auto
  define a where "a = mz_axis ! wrapped_pos (length mz_axis) p"
  define b where "b = mz_axis ! p"
  have ia: "py_index mz_axis (int p - 1) = Inr a"
    using p by (simp add: py_index_before a_def)
  have ib: "py_index mz_axis (int p) = Inr b"
    using p by (simp add: py_index_inside b_def)
  have best: "ppm_error a ion_mz \<le> ppm_error x ion_mz \<or> ppm_error b ion_mz \<le> ppm_error x ion_mz"
    if "x \<in> set mz_axis" for x
    using neighbours_nearest [OF srt scan that] ppm_error_mono [OF pos]
    unfolding a_def b_def by blast
  from pos have nz: "ion_mz \<noteq> 0" by simp
  note unfold = find_closest_unfold [OF scan nz, of allowed, folded a_def b_def]
  show ?thesis
  proof (cases "ppm_error a ion_mz \<le> ppm_error b ion_mz")
    case True
    then have min: "\<forall>x \<in> set mz_axis. ppm_error a ion_mz \<le> ppm_error x ion_mz"
      using best by force
    with y have tol: "ppm_error a ion_mz \<le> allowed" by force
    from True tol unfold
    have "find_closest_ion_mz_index allowed mz_axis ion_mz = ([], Inr (int p - 1))"
      by simp
    moreover have "ppm_error a ion_mz \<le> ppm_error a ion_mz" by simp
    ultimately show ?thesis using scan p below stop ia ib True tol min by blast
  next
    case False
    then have min: "\<forall>x \<in> set mz_axis. ppm_error b ion_mz \<le> ppm_error x ion_mz"
      using best by force
    with y have tol: "ppm_error b ion_mz \<le> allowed" by force
    from False tol unfold
    have "find_closest_ion_mz_index allowed mz_axis ion_mz = ([], Inr (int p))"
      by simp
    moreover have "ppm_error b ion_mz \<le> ppm_error b ion_mz" by simp
    moreover from False have "ppm_error b ion_mz \<le> ppm_error a ion_mz" by simp
    ultimately show ?thesis using scan p below stop ia ib tol min by blast
  qed
qed

theorem find_closest_ion_mz_index_minimal_witness:
  "sorted [1, 2, 4 :: real] \<and> (0::real) < 3
   \<and> (\<exists>x \<in> set [1, 2, 4 :: real]. ppm_error x 3 \<le> 400000)
   \<and> (\<exists>p k previous_mz next_mz mz.
      scan_axis [1, 2, 4] 3 0 = Inr p
    \<and> p < length [1, 2, 4 :: real]
    \<and> (\<forall>i < p. [1, 2, 4 :: real] ! i < 3)
    \<and> (3 \<le> [1, 2, 4 :: real] ! p \<or> p + 1 = length [1, 2, 4 :: real])
    \<and> py_index [1, 2, 4] (int p - 1) = Inr previous_mz
    \<and> py_index [1, 2, 4] (int p) = Inr next_mz
    \<and> find_closest_ion_mz_index 400000 [1, 2, 4] 3 = ([], Inr k)
    \<and> (k = int p - 1 \<or> k = int p)
    \<and> py_index [1, 2, 4] k = Inr mz
    \<and> ppm_error mz 3 \<le> ppm_error previous_mz 3
    \<and> ppm_error mz 3 \<le> ppm_error next_mz 3
    \<and> ppm_error mz 3 \<le> 400000
    \<and> (\<forall>x \<in> set [1, 2, 4 :: real]. ppm_error mz 3 \<le> ppm_error x 3))"
proof -
  have h1: "sorted [1, 2, 4 :: real]" by simp
  have h2: "(0::real) < 3" by simp
  have h3: "\<exists>x \<in> set [1, 2, 4 :: real]. ppm_error x 3 \<le> 400000"
    by (simp add: ppm_error_def)
  from find_closest_ion_mz_index_minimal [OF h1 h2 h3] h1 h2 h3
  show ?thesis by blast
qed

lemma scan_axis_nonempty:
  "mz_axis \<noteq> [] \<Longrightarrow> \<exists>p. scan_axis mz_axis ion_mz 0 = Inr p \<and> p < length mz_axis"
  using scan_axis_returns [of 0 mz_axis ion_mz] scan_axis_position [of mz_axis ion_mz 0]
  by auto

lemma scan_axis_empty: "scan_axis [] ion_mz 0 = Inl IndexError"
  by (subst scan_axis.simps) simp

lemma wrapped_pos_inside: "p < n \<Longrightarrow> wrapped_pos n p < n"
  by (auto simp: wrapped_pos_def)

text \<open>
  Claim C2. When no entry of the axis is within the tolerance of the target, the
  locator returns no index: it raises the ValueError of its last branch (IndexError on
  the empty axis, ZeroDivisionError for the target 0). The axis need not be sorted for
  this.
\<close>

theorem find_closest_ion_mz_index_no_match:
  assumes far: "\<forall>x \<in> set mz_axis. \<not> ppm_error x ion_mz \<le> allowed"
  shows "snd (find_closest_ion_mz_index allowed mz_axis ion_mz) =
     Inl (if mz_axis = [] then IndexError
          else if ion_mz = 0 then ZeroDivisionError
          else ValueError ''No ion within current ppm identified!'')"
proof (cases "mz_axis = []")
  case True
  then show ?thesis
    by (simp add: find_closest_ion_mz_index_def scan_axis_empty)
next
  case False
  then obtain p where scan: "scan_axis mz_axis ion_mz 0 = Inr p" and p: "p < length mz_axis"
    using scan_axis_nonempty by blast
  show ?thesis
  proof (cases "ion_mz = 0")
    case True
    with False scan p show ?thesis
      by (simp add: find_closest_ion_mz_index_def py_index_before)
  next
    case nz: False
    from p have "mz_axis ! wrapped_pos (length mz_axis) p \<in> set mz_axis"
      by (simp add: wrapped_pos_inside)
    with far have a: "\<not> ppm_error (mz_axis ! wrapped_pos (length mz_axis) p) ion_mz \<le> allowed"
      by blast
    from p far have b: "\<not> ppm_error (mz_axis ! p) ion_mz \<le> allowed"
      by simp
    from a b False nz show ?thesis
      by (simp add: find_closest_unfold [OF scan nz] Let_def)
  qed
qed

theorem find_closest_ion_mz_index_no_match_witness:
  "\<not> ppm_error 100 100.7 \<le> 10 \<and> \<not> ppm_error 100.5 100.7 \<le> 10
   \<and> \<not> ppm_error 101.2 100.7 \<le> 10
   \<and> snd (find_closest_ion_mz_index 10 [100, 100.5, 101.2] 100.7) =
       Inl (ValueError ''No ion within current ppm identified!'')"
proof -
  have far: "\<not> ppm_error 100 100.7 \<le> 10" "\<not> ppm_error 100.5 100.7 \<le> 10"
      "\<not> ppm_error 101.2 100.7 \<le> 10"
    by (simp_all add: ppm_error_def)
  then have h: "\<forall>x \<in> set [100, 100.5, 101.2 :: real]. \<not> ppm_error x 100.7 \<le> 10"
    by simp
  from find_closest_ion_mz_index_no_match [OF h] far show ?thesis by simp
qed

lemma scan_axis_stops_at_start:
  assumes "mz_axis \<noteq> []" and "ion_mz \<le> hd mz_axis"
  shows "scan_axis mz_axis ion_mz 0 = Inr 0"
proof -
  from assms have "\<not> mz_axis ! 0 < ion_mz" by (simp add: hd_conv_nth)
  with assms(1) show ?thesis by (subst scan_axis.simps) simp
qed

text \<open>
  Claim C4. On an axis of at least two points, for a target not greater than the first
  entry, the scan stops at position 0; the entry read as the previous peak is the last
  one of the axis (index \<open>-1\<close>); the outcome is decided by the three branches over the
  last and the first entry, the first of which returns \<open>-1\<close>. There is no separate
  treatment of this case, and there are inputs of this kind on which \<open>-1\<close> is returned.
\<close>

theorem find_closest_ion_mz_index_below_first:
  assumes two: "2 \<le> length mz_axis" and low: "ion_mz \<le> hd mz_axis"
  shows "scan_axis mz_axis ion_mz 0 = Inr 0
      \<and> py_index mz_axis (int 0 - 1) = Inr (last mz_axis)
      \<and> (ion_mz \<noteq> 0 \<longrightarrow>
           find_closest_ion_mz_index allowed mz_axis ion_mz =
             (let previous_peak_ppm = ppm_error (last mz_axis) ion_mz;
                  next_peak_ppm = ppm_error (hd mz_axis) ion_mz
              in if previous_peak_ppm \<le> next_peak_ppm \<and> previous_peak_ppm \<le> allowed
                 then ([], Inr (- 1))
                 else if previous_peak_ppm > next_peak_ppm \<and> next_peak_ppm \<le> allowed
                 then ([], Inr 0)
                 else ([PpmsLine previous_peak_ppm next_peak_ppm],
                       Inl (ValueError ''No ion within current ppm identified!''))))
      \<and> (\<exists>allowed' mz_axis' ion_mz'.
            2 \<le> length mz_axis' \<and> ion_mz' \<le> hd mz_axis'
          \<and> find_closest_ion_mz_index allowed' mz_axis' ion_mz' = ([], Inr (- 1)))"
proof -
  from two have ne: "mz_axis \<noteq> []" by auto
  from low ne have scan: "scan_axis mz_axis ion_mz 0 = Inr 0"
    by (simp add: scan_axis_stops_at_start)
  from ne have w: "mz_axis ! wrapped_pos (length mz_axis) 0 = last mz_axis"
    by (simp add: wrapped_pos_def last_conv_nth)
  from ne have before: "py_index mz_axis (int 0 - 1) = Inr (last mz_axis)"
    using py_index_before [of 0 mz_axis] w by simp
  have branches: "find_closest_ion_mz_index allowed mz_axis ion_mz =
             (let previous_peak_ppm = ppm_error (last mz_axis) ion_mz;
                  next_peak_ppm = ppm_error (hd mz_axis) ion_mz
              in if previous_peak_ppm \<le> next_peak_ppm \<and> previous_peak_ppm \<le> allowed
                 then ([], Inr (- 1))
                 else if previous_peak_ppm > next_peak_ppm \<and> next_peak_ppm \<le> allowed
                 then ([], Inr 0)
                 else ([PpmsLine previous_peak_ppm next_peak_ppm],
                       Inl (ValueError ''No ion within current ppm identified!'')))"
    if nz: "ion_mz \<noteq> 0"
    using ne w by (simp add: find_closest_unfold [OF scan nz] hd_conv_nth Let_def)
  have scan': "scan_axis [100, 100] 100 0 = Inr 0"
    by (simp add: scan_axis_stops_at_start)
  have "find_closest_ion_mz_index 10 [100, 100] 100 = ([], Inr (- 1))"
    using find_closest_unfold [OF scan', of 10] by (simp add: wrapped_pos_def ppm_error_def)
  moreover have "2 \<le> length [100, 100 :: real] \<and> (100 :: real) \<le> hd [100, 100]" by simp
  ultimately have possible: "\<exists>allowed' mz_axis' ion_mz'.
        2 \<le> length mz_axis' \<and> ion_mz' \<le> hd mz_axis'
      \<and> find_closest_ion_mz_index allowed' mz_axis' ion_mz' = ([], Inr (- 1))"
    by blast
  from scan before branches possible show ?thesis by blast
qed

theorem find_closest_ion_mz_index_below_first_witness:
  "2 \<le> length [100, 100.5 :: real] \<and> (99 :: real) \<le> hd [100, 100.5]
   \<and> scan_axis [100, 100.5] 99 0 = Inr 0
   \<and> py_index [100, 100.5 :: real] (int 0 - 1) = Inr 100.5
   \<and> find_closest_ion_mz_index 20000 [100, 100.5] 99 = ([], Inr 0)"
proof -
  have h1: "2 \<le> length [100, 100.5 :: real]" by simp
  have h2: "(99 :: real) \<le> hd [100, 100.5]" by simp
  from find_closest_ion_mz_index_below_first [OF h1 h2, of 20000] h1 h2
  show ?thesis by (simp add: ppm_error_def Let_def)
qed

text \<open>
  Claim C7. On the axis 100.0, 100.5, 101.2 and the target 100.52, with a tolerance not
  less than the ppm error of 100.5 against 100.52, the locator returns index 1.
\<close>

theorem find_closest_ion_mz_index_example:
  assumes "ppm_error 100.5 100.52 \<le> allowed"
  shows "find_closest_ion_mz_index allowed [100.0, 100.5, 101.2] 100.52 = ([], Inr 1)"
proof -
  have scan: "scan_axis [100.0, 100.5, 101.2] 100.52 0 = Inr 2"
    by (simp add: scan_axis.simps)
  have "ppm_error 100.5 100.52 \<le> ppm_error 101.2 100.52"
    by (simp add: ppm_error_def)
  with assms find_closest_unfold [OF scan, of allowed] show ?thesis
    by (simp add: wrapped_pos_def)
qed

theorem find_closest_ion_mz_index_example_witness:
  "ppm_error 100.5 100.52 \<le> 200
   \<and> find_closest_ion_mz_index 200 [100.0, 100.5, 101.2] 100.52 = ([], Inr 1)"
proof -
  have h: "ppm_error 100.5 100.52 \<le> 200" by (simp add: ppm_error_def)
  from find_closest_ion_mz_index_example [OF h] h show ?thesis by simp
qed

text \<open>
  Claim C10. On a non-empty axis the scan ends: from every position inside the axis it
  returns a position that is not before its start and inside the axis (its recursion
  is well-founded on the distance to the end of the axis), so the locator never reads
  beyond the axis; and an index returned by the locator is between \<open>-1\<close> and the
  length of the axis minus one.
\<close>

theorem find_closest_ion_mz_index_terminates:
  assumes "mz_axis \<noteq> []"
  shows "(\<forall>closest_index < length mz_axis.
            \<exists>p. scan_axis mz_axis ion_mz closest_index = Inr p
               \<and> closest_index \<le> p \<and> p < length mz_axis)
       \<and> snd (find_closest_ion_mz_index allowed mz_axis ion_mz) \<noteq> Inl IndexError
       \<and> (\<forall>k. snd (find_closest_ion_mz_index allowed mz_axis ion_mz) = Inr k \<longrightarrow>
            - 1 \<le> k \<and> k \<le> int (length mz_axis) - 1)"
proof -
  have a: "\<exists>p. scan_axis mz_axis ion_mz closest_index = Inr p
               \<and> closest_index \<le> p \<and> p < length mz_axis"
    if "closest_index < length mz_axis" for closest_index
  proof -
    from that obtain p where "scan_axis mz_axis ion_mz closest_index = Inr p"
      using scan_axis_returns by blast
    then show ?thesis using scan_axis_position by blast
  qed
  from assms obtain p where scan: "scan_axis mz_axis ion_mz 0 = Inr p" and p: "p < length mz_axis"
    using scan_axis_nonempty by blast
  have b: "snd (find_closest_ion_mz_index allowed mz_axis ion_mz) \<noteq> Inl IndexError"
    using scan p
    by (simp add: find_closest_ion_mz_index_def py_index_before py_index_inside Let_def)
  have c: "- 1 \<le> k \<and> k \<le> int (length mz_axis) - 1"
    if "snd (find_closest_ion_mz_index allowed mz_axis ion_mz) = Inr k" for k
  proof -
    from that scan p have "k = int p - 1 \<or> k = int p"
      by (auto simp: find_closest_ion_mz_index_def py_index_before py_index_inside Let_def
          split: if_splits)
    with p show ?thesis by auto
  qed
  from a b c show ?thesis by blast
qed

theorem find_closest_ion_mz_index_terminates_witness:
  "[100 :: real] \<noteq> []
   \<and> (\<exists>p. scan_axis [100] 100 0 = Inr p \<and> 0 \<le> p \<and> p < length [100 :: real])
   \<and> snd (find_closest_ion_mz_index 10 [100] 100) \<noteq> Inl IndexError
   \<and> snd (find_closest_ion_mz_index 10 [100] 100) = Inr (- 1)
   \<and> (- 1 :: int) \<le> - 1 \<and> (- 1 :: int) \<le> int (length [100 :: real]) - 1"
proof -
  have h: "[100 :: real] \<noteq> []" by simp
  have scan: "scan_axis [100] 100 0 = Inr 0"
    by (simp add: scan_axis.simps)
  have r: "snd (find_closest_ion_mz_index 10 [100] 100) = Inr (- 1)"
    using find_closest_unfold [OF scan, of 10] by (simp add: wrapped_pos_def ppm_error_def)
  have "(0 :: nat) < length [100 :: real]" by simp
  with find_closest_ion_mz_index_terminates [OF h, of 100 10] h r show ?thesis
    by blast
qed

section \<open>Properties of the lookup of the amino acids\<close>

lemma find_closest_prints_on_error_only:
  "find_closest_ion_mz_index allowed mz_axis ion_mz = (printed, Inr k) \<Longrightarrow> printed = []"
  by (auto simp: find_closest_ion_mz_index_def Let_def split: sum.splits if_splits)

lemma locate_prints_on_error_only:
  "locate allowed ions_mzs ions_names mz_axis name = (printed, Inr k) \<Longrightarrow> printed = []"
  by (auto simp: locate_def find_closest_prints_on_error_only split: sum.splits)

lemma aa_loop_returns:
  "aa_loop allowed ions_mzs ions_names mz_axis amino_acids idxs names out = (out', Inr (idxs', names'))
   \<Longrightarrow> names' = names @ filter (\<lambda>name. name \<in> set ions_names) (map fst amino_acids)
     \<and> (\<exists>ks. idxs' = idxs @ ks
          \<and> list_all2 (\<lambda>k name. snd (locate allowed ions_mzs ions_names mz_axis name) = Inr k)
               ks (filter (\<lambda>name. name \<in> set ions_names) (map fst amino_acids)))
     \<and> out' = out @ map NotInIonsNames
                 (filter (\<lambda>name. name \<notin> set ions_names) (map fst amino_acids))"
proof (induction amino_acids arbitrary: idxs names out)
  case Nil
  then show ?case by simp
next
  case (Cons a amino_acids)
  obtain name v where a: "a = (name, v)" by (cases a)
  show ?case
  proof (cases "name \<in> set ions_names")
    case absent: False
    with Cons.prems a have
      "aa_loop allowed ions_mzs ions_names mz_axis amino_acids idxs names
         (out @ [NotInIonsNames name]) = (out', Inr (idxs', names'))"
      by simp
    from Cons.IH [OF this] absent a show ?thesis by simp
  next
    case present: True
    obtain printed r where l: "locate allowed ions_mzs ions_names mz_axis name = (printed, r)"
      by (cases "locate allowed ions_mzs ions_names mz_axis name")
    show ?thesis
    proof (cases r)
      case (Inl e)
      with Cons.prems a present l show ?thesis by simp
    next
      case (Inr k)
      with l have "printed = []" by (simp add: locate_prints_on_error_only)
      with Cons.prems a present l Inr have
        "aa_loop allowed ions_mzs ions_names mz_axis amino_acids (idxs @ [k]) (names @ [name])
           out = (out', Inr (idxs', names'))"
        by simp
      from Cons.IH [OF this] obtain ks where
        n: "names' = (names @ [name]) @ filter (\<lambda>name. name \<in> set ions_names) (map fst amino_acids)"
        and ks: "idxs' = (idxs @ [k]) @ ks"
          "list_all2 (\<lambda>k name. snd (locate allowed ions_mzs ions_names mz_axis name) = Inr k)
               ks (filter (\<lambda>name. name \<in> set ions_names) (map fst amino_acids))"
        and o: "out' = out @ map NotInIonsNames
                 (filter (\<lambda>name. name \<notin> set ions_names) (map fst amino_acids))"
        by blast
      from ks l Inr have "idxs' = idxs @ (k # ks)
        \<and> list_all2 (\<lambda>k name. snd (locate allowed ions_mzs ions_names mz_axis name) = Inr k)
               (k # ks) (name # filter (\<lambda>name. name \<in> set ions_names) (map fst amino_acids))"
        by simp
      with n o a present show ?thesis by auto
    qed
  qed
qed

lemma aa_loop_raises:
  "snd (aa_loop allowed ions_mzs ions_names mz_axis amino_acids idxs names out) = Inl e
   \<Longrightarrow> \<exists>name \<in> set (map fst amino_acids).
         name \<in> set ions_names \<and> snd (locate allowed ions_mzs ions_names mz_axis name) = Inl e"
proof (induction amino_acids arbitrary: idxs names out)
  case Nil
  then show ?case by simp
next
  case (Cons a amino_acids)
  obtain name v where a: "a = (name, v)" by (cases a)
  show ?case
  proof (cases "name \<in> set ions_names")
    case absent: False
    with Cons.prems a have
      "snd (aa_loop allowed ions_mzs ions_names mz_axis amino_acids idxs names
         (out @ [NotInIonsNames name])) = Inl e"
      by simp
    from Cons.IH [OF this] show ?thesis by auto
  next
    case present: True
    obtain printed r where l: "locate allowed ions_mzs ions_names mz_axis name = (printed, r)"
      by (cases "locate allowed ions_mzs ions_names mz_axis name")
    show ?thesis
    proof (cases r)
      case (Inl e')
      with Cons.prems a present l have "e' = e" by simp
      with Inl l a present show ?thesis by auto
    next
      case (Inr k)
      with Cons.prems a present l have
        "snd (aa_loop allowed ions_mzs ions_names mz_axis amino_acids (idxs @ [k]) (names @ [name])
           (out @ printed)) = Inl e"
        by simp
      from Cons.IH [OF this] show ?thesis by auto
    qed
  qed
qed

lemma aa_loop_aborts:
  "name \<in> set (map fst amino_acids) \<Longrightarrow> name \<in> set ions_names
   \<Longrightarrow> snd (locate allowed ions_mzs ions_names mz_axis name) = Inl e
   \<Longrightarrow> \<exists>e'. snd (aa_loop allowed ions_mzs ions_names mz_axis amino_acids idxs names out) = Inl e'"
proof (induction amino_acids arbitrary: idxs names out)
  case Nil
  then show ?case by simp
next
  case (Cons a amino_acids)
  obtain name' v where a: "a = (name', v)" by (cases a)
  show ?case
  proof (cases "name' \<in> set ions_names")
    case absent: False
    with Cons.prems a have "name \<in> set (map fst amino_acids)" by auto
    from Cons.IH [OF this Cons.prems(2,3)] absent a show ?thesis by simp
  next
    case present: True
    obtain printed r where l: "locate allowed ions_mzs ions_names mz_axis name' = (printed, r)"
      by (cases "locate allowed ions_mzs ions_names mz_axis name'")
    show ?thesis
    proof (cases r)
      case (Inl e')
      with a present l show ?thesis by simp
    next
      case (Inr k)
      with l Cons.prems(3) have "name \<noteq> name'" by auto
      with Cons.prems a have "name \<in> set (map fst amino_acids)" by auto
      from Cons.IH [OF this Cons.prems(2,3)] Inr a present l show ?thesis by simp
    qed
  qed
qed

text \<open>
  Claim C5, as the source has it. When the scan has stopped at \<open>p\<close> and neither the
  entry before \<open>p\<close> nor the entry at \<open>p\<close> is within the tolerance of a target other than
  zero, the locator prints one line with the two ppm deviations and raises a ValueError
  whose message is fixed: the deviations are on the console, not in the exception. The
  caller does not catch it: when such a target is the annotated value of a name of the
  reference list, \<open>get_amino_acids_indices_in_data\<close> ends with an exception and returns
  no lists.
\<close>

theorem lookup_failure_prints_ppms_and_aborts:
  assumes scan: "scan_axis mz_axis ion_mz 0 = Inr p" and nz: "ion_mz \<noteq> 0"
    and prev_far: "\<not> ppm_error (mz_axis ! wrapped_pos (length mz_axis) p) ion_mz \<le> allowed"
    and next_far: "\<not> ppm_error (mz_axis ! p) ion_mz \<le> allowed"
    and listed: "name \<in> set (map fst amino_acids)"
    and annotated: "list_index ions_names name = Inr aa_index"
      "py_index ions_mzs (int aa_index) = Inr ion_mz"
  shows "find_closest_ion_mz_index allowed mz_axis ion_mz =
           ([PpmsLine (ppm_error (mz_axis ! wrapped_pos (length mz_axis) p) ion_mz)
                      (ppm_error (mz_axis ! p) ion_mz)],
            Inl (ValueError ''No ion within current ppm identified!''))
       \<and> (\<exists>e. snd (get_amino_acids_indices_in_data allowed amino_acids ions_mzs ions_names mz_axis)
                = Inl e)"
proof -
  from prev_far next_far have raised: "find_closest_ion_mz_index allowed mz_axis ion_mz =
           ([PpmsLine (ppm_error (mz_axis ! wrapped_pos (length mz_axis) p) ion_mz)
                      (ppm_error (mz_axis ! p) ion_mz)],
            Inl (ValueError ''No ion within current ppm identified!''))"
    by (simp add: find_closest_unfold [OF scan nz] Let_def)
  from annotated(1) have present: "name \<in> set ions_names"
  proof (induction ions_names arbitrary: aa_index)
    case Nil
    then show ?case by simp
  next
    case (Cons x xs)
    then show ?case by (auto split: if_splits sum.splits)
  qed
  from annotated raised
  have "snd (locate allowed ions_mzs ions_names mz_axis name)
      = Inl (ValueError ''No ion within current ppm identified!'')"
    by (simp add: locate_def)
  from aa_loop_aborts [OF listed present this]
  have "\<exists>e. snd (get_amino_acids_indices_in_data allowed amino_acids ions_mzs ions_names mz_axis)
                = Inl e"
    by (simp add: get_amino_acids_indices_in_data_def)
  with raised show ?thesis by simp
qed

theorem lookup_failure_prints_ppms_and_aborts_witness:
  "scan_axis [76.04, 80] 77 0 = Inr 1 \<and> (77 :: real) \<noteq> 0
   \<and> \<not> ppm_error ([76.04, 80] ! wrapped_pos (length [76.04, 80 :: real]) 1) 77 \<le> 10
   \<and> \<not> ppm_error ([76.04, 80] ! 1) 77 \<le> 10
   \<and> ''glycine'' \<in> set (map fst [(''alanine'', 90.05 :: real), (''glycine'', 76.04)])
   \<and> list_index [''glycine''] ''glycine'' = Inr 0
   \<and> py_index [77 :: real] (int 0) = Inr 77
   \<and> find_closest_ion_mz_index 10 [76.04, 80] 77 =
        ([PpmsLine (ppm_error 76.04 77) (ppm_error 80 77)],
         Inl (ValueError ''No ion within current ppm identified!''))
   \<and> (\<exists>e. snd (get_amino_acids_indices_in_data 10
                  [(''alanine'', 90.05 :: real), (''glycine'', 76.04)] [77] [''glycine'']
                  [76.04, 80]) = Inl e)"
proof -
  have scan: "scan_axis [76.04, 80] 77 0 = Inr 1"
    by (simp add: scan_axis.simps)
  have nz: "(77 :: real) \<noteq> 0" by simp
  have a: "\<not> ppm_error ([76.04, 80] ! wrapped_pos (length [76.04, 80 :: real]) 1) 77 \<le> 10"
    by (simp add: wrapped_pos_def ppm_error_def)
  have b: "\<not> ppm_error ([76.04, 80] ! 1) 77 \<le> 10"
    by (simp add: ppm_error_def)
  have c: "''glycine'' \<in> set (map fst [(''alanine'', 90.05 :: real), (''glycine'', 76.04)])"
    by simp
  have d: "list_index [''glycine''] ''glycine'' = Inr 0" by simp
  have e: "py_index [77 :: real] (int 0) = Inr 77" by (simp add: py_index_def)
  from lookup_failure_prints_ppms_and_aborts [OF scan nz a b c d e] scan nz a b c d e
  show ?thesis by (simp add: wrapped_pos_def)
qed

text \<open>
  The exception itself does not carry the deviations: two failing lookups with
  different pairs of deviations raise the same exception value.
\<close>

theorem error_does_not_carry_ppms_counterexample:
  "find_closest_ion_mz_index 10 [100, 110] 104 =
     ([PpmsLine (ppm_error 100 104) (ppm_error 110 104)],
      Inl (ValueError ''No ion within current ppm identified!''))
   \<and> find_closest_ion_mz_index 10 [100, 110] 106 =
     ([PpmsLine (ppm_error 100 106) (ppm_error 110 106)],
      Inl (ValueError ''No ion within current ppm identified!''))
   \<and> (ppm_error 100 104, ppm_error 110 104) \<noteq> (ppm_error 100 106, ppm_error 110 106)"
proof -
  have s1: "scan_axis [100, 110] 104 0 = Inr 1" by (simp add: scan_axis.simps)
  have s2: "scan_axis [100, 110] 106 0 = Inr 1" by (simp add: scan_axis.simps)
  have "find_closest_ion_mz_index 10 [100, 110] 104 =
     ([PpmsLine (ppm_error 100 104) (ppm_error 110 104)],
      Inl (ValueError ''No ion within current ppm identified!''))"
    using find_closest_unfold [OF s1, of 10]
    by (simp add: wrapped_pos_def ppm_error_def Let_def)
  moreover have "find_closest_ion_mz_index 10 [100, 110] 106 =
     ([PpmsLine (ppm_error 100 106) (ppm_error 110 106)],
      Inl (ValueError ''No ion within current ppm identified!''))"
    using find_closest_unfold [OF s2, of 10]
    by (simp add: wrapped_pos_def ppm_error_def Let_def)
  moreover have "(ppm_error 100 104, ppm_error 110 104) \<noteq> (ppm_error 100 106, ppm_error 110 106)"
    by (simp add: ppm_error_def)
  ultimately show ?thesis by blast
qed

text \<open>
  Claim C8. A name of the reference list that is absent from the ion names causes no
  failure. When the function returns, the names returned are the names of the
  reference list that are among the ion names, in the order of the reference list; the
  indices are as many and are, position by position, the result of the lookup of the
  name; and the console holds one warning for every absent name, in order. When the
  function raises an exception, it is the exception of the lookup of a name that is
  present. When every name is absent, it returns two empty lists.
\<close>

theorem get_amino_acids_indices_in_data_skips_absent:
  "(get_amino_acids_indices_in_data allowed amino_acids ions_mzs ions_names mz_axis
        = (out, Inr (aa_mz_indices, aa_names)) \<longrightarrow>
        aa_names = filter (\<lambda>name. name \<in> set ions_names) (map fst amino_acids)
      \<and> length aa_mz_indices = length aa_names
      \<and> list_all2 (\<lambda>k name. snd (locate allowed ions_mzs ions_names mz_axis name) = Inr k)
          aa_mz_indices aa_names
      \<and> out = map NotInIonsNames
                (filter (\<lambda>name. name \<notin> set ions_names) (map fst amino_acids)))
   \<and> (snd (get_amino_acids_indices_in_data allowed amino_acids ions_mzs ions_names mz_axis)
        = Inl e \<longrightarrow>
        (\<exists>name \<in> set (map fst amino_acids).
           name \<in> set ions_names
         \<and> snd (locate allowed ions_mzs ions_names mz_axis name) = Inl e))
   \<and> ((\<forall>name \<in> set (map fst amino_acids). name \<notin> set ions_names) \<longrightarrow>
        get_amino_acids_indices_in_data allowed amino_acids ions_mzs ions_names mz_axis
          = (map NotInIonsNames (map fst amino_acids), Inr ([], [])))"
proof -
  let ?run = "get_amino_acids_indices_in_data allowed amino_acids ions_mzs ions_names mz_axis"
  have returned: "aa_names = filter (\<lambda>name. name \<in> set ions_names) (map fst amino_acids)
      \<and> length aa_mz_indices = length aa_names
      \<and> list_all2 (\<lambda>k name. snd (locate allowed ions_mzs ions_names mz_axis name) = Inr k)
          aa_mz_indices aa_names
      \<and> out = map NotInIonsNames
                (filter (\<lambda>name. name \<notin> set ions_names) (map fst amino_acids))"
    if "?run = (out, Inr (aa_mz_indices, aa_names))" for out aa_mz_indices aa_names
    using aa_loop_returns [of allowed ions_mzs ions_names mz_axis amino_acids "[]" "[]" "[]"
        out aa_mz_indices aa_names] that
    by (auto simp: get_amino_acids_indices_in_data_def dest: list_all2_lengthD)
  have raised: "\<exists>name \<in> set (map fst amino_acids).
           name \<in> set ions_names
         \<and> snd (locate allowed ions_mzs ions_names mz_axis name) = Inl e"
    if "snd ?run = Inl e" for e
    using aa_loop_raises [of allowed ions_mzs ions_names mz_axis amino_acids "[]" "[]" "[]" e] that
    by (simp add: get_amino_acids_indices_in_data_def)
  have none: "?run = (map NotInIonsNames (map fst amino_acids), Inr ([], []))"
    if absent: "\<forall>name \<in> set (map fst amino_acids). name \<notin> set ions_names"
  proof -
    obtain out' r where run: "?run = (out', r)" by (cases ?run)
    show ?thesis
    proof (cases r)
      case (Inl e')
      with run raised [of e'] absent show ?thesis by auto
    next
      case (Inr lists)
      obtain idxs nms where "lists = (idxs, nms)" by (cases lists)
      with run Inr have eq: "?run = (out', Inr (idxs, nms))" by simp
      from absent have f1: "filter (\<lambda>name. name \<in> set ions_names) (map fst amino_acids) = []"
        by (simp add: filter_empty_conv)
      from absent have f2: "filter (\<lambda>name. name \<notin> set ions_names) (map fst amino_acids)
          = map fst amino_acids"
        by (simp add: filter_id_conv)
      from returned [OF eq] f1 f2 eq show ?thesis by auto
    qed
  qed
  from returned raised none show ?thesis by blast
qed

theorem get_amino_acids_indices_in_data_skips_absent_witness:
  "get_amino_acids_indices_in_data 10 [(''alanine'', 90.05 :: real), (''glycine'', 76.04)]
       [76.04] [''glycine''] [76.04, 80]
     = ([NotInIonsNames ''alanine''], Inr ([0], [''glycine'']))
   \<and> [''glycine''] = filter (\<lambda>name. name \<in> set [''glycine''])
         (map fst [(''alanine'', 90.05 :: real), (''glycine'', 76.04)])
   \<and> length [0 :: int] = length [''glycine'']
   \<and> [NotInIonsNames ''alanine''] = map NotInIonsNames
         (filter (\<lambda>name. name \<notin> set [''glycine''])
            (map fst [(''alanine'', 90.05 :: real), (''glycine'', 76.04)]))
   \<and> snd (get_amino_acids_indices_in_data 10 [(''alanine'', 90.05 :: real), (''glycine'', 76.04)]
       [77] [''glycine''] [76.04, 80])
     = Inl (ValueError ''No ion within current ppm identified!'')
   \<and> (\<exists>name \<in> set (map fst [(''alanine'', 90.05 :: real), (''glycine'', 76.04)]).
        name \<in> set [''glycine'']
      \<and> snd (locate 10 [77] [''glycine''] [76.04, 80] name)
          = Inl (ValueError ''No ion within current ppm identified!''))
   \<and> ''alanine'' \<notin> set [''serine''] \<and> ''glycine'' \<notin> set [''serine'']
   \<and> get_amino_acids_indices_in_data 10 [(''alanine'', 90.05 :: real), (''glycine'', 76.04)]
       [106.05] [''serine''] [76.04, 80]
     = (map NotInIonsNames (map fst [(''alanine'', 90.05 :: real), (''glycine'', 76.04)]),
        Inr ([], []))"
proof -
  let ?aas = "[(''alanine'', 90.05 :: real), (''glycine'', 76.04)]"
  have s1: "scan_axis [76.04, 80] 76.04 0 = Inr 0" by (simp add: scan_axis.simps)
  have s2: "scan_axis [76.04, 80] 77 0 = Inr 1" by (simp add: scan_axis.simps)
  have f1: "find_closest_ion_mz_index 10 [76.04, 80] 76.04 = ([], Inr 0)"
    using find_closest_unfold [OF s1, of 10] by (simp add: wrapped_pos_def ppm_error_def)
  have f2: "find_closest_ion_mz_index 10 [76.04, 80] 77
      = ([PpmsLine (ppm_error 76.04 77) (ppm_error 80 77)],
         Inl (ValueError ''No ion within current ppm identified!''))"
    using find_closest_unfold [OF s2, of 10] by (simp add: wrapped_pos_def ppm_error_def Let_def)
  have run1: "get_amino_acids_indices_in_data 10 ?aas [76.04] [''glycine''] [76.04, 80]
     = ([NotInIonsNames ''alanine''], Inr ([0], [''glycine'']))"
    using f1 by (simp add: get_amino_acids_indices_in_data_def locate_def py_index_def)
  have run2: "snd (get_amino_acids_indices_in_data 10 ?aas [77] [''glycine''] [76.04, 80])
     = Inl (ValueError ''No ion within current ppm identified!'')"
    using f2 by (simp add: get_amino_acids_indices_in_data_def locate_def py_index_def)
  have absent: "\<forall>name \<in> set (map fst ?aas). name \<notin> set [''serine'']" by simp
  from get_amino_acids_indices_in_data_skips_absent
         [of 10 ?aas "[76.04]" "[''glycine'']" "[76.04, 80]" "[NotInIonsNames ''alanine'']"
             "[0]" "[''glycine'']"] run1
  have a: "[''glycine''] = filter (\<lambda>name. name \<in> set [''glycine'']) (map fst ?aas)
   \<and> length [0 :: int] = length [''glycine'']
   \<and> [NotInIonsNames ''alanine''] = map NotInIonsNames
         (filter (\<lambda>name. name \<notin> set [''glycine'']) (map fst ?aas))"
    by blast
  from get_amino_acids_indices_in_data_skips_absent
         [of 10 ?aas "[77]" "[''glycine'']" "[76.04, 80]" _ _ _
             "ValueError ''No ion within current ppm identified!''"] run2
  have b: "\<exists>name \<in> set (map fst ?aas).
        name \<in> set [''glycine'']
      \<and> snd (locate 10 [77] [''glycine''] [76.04, 80] name)
          = Inl (ValueError ''No ion within current ppm identified!'')"
    by blast
  from get_amino_acids_indices_in_data_skips_absent
         [of 10 ?aas "[106.05]" "[''serine'']" "[76.04, 80]"] absent
  have c: "get_amino_acids_indices_in_data 10 ?aas [106.05] [''serine''] [76.04, 80]
     = (map NotInIonsNames (map fst ?aas), Inr ([], []))"
    by blast
  have absent': "''alanine'' \<notin> set [''serine'']" "''glycine'' \<notin> set [''serine'']"
    by simp_all
  from run1 a run2 b absent' c show ?thesis by blast
qed

section \<open>Properties of the batch assignment\<close>

lemma triples_length:
  "length (concat (map (\<lambda>i. [int i, int i, int i]) [0..<m])) = 3 * m"
  by (induction m) simp_all

lemma triples_nth:
  "s < 3 * m \<Longrightarrow> concat (map (\<lambda>i. [int i, int i, int i]) [0..<m]) ! s = int (s div 3)"
proof (induction m)
  case 0
  then show ?case by simp
next
  case (Suc m)
  show ?case
  proof (cases "s < 3 * m")
    case True
    with Suc.IH show ?thesis by (simp add: nth_append triples_length)
  next
    case False
    with Suc.prems have "s = 3 * m \<or> s = 3 * m + 1 \<or> s = 3 * m + 2" by arith
    then show ?thesis
      by (auto simp: nth_append triples_length)
  qed
qed

lemma triple_groups:
  assumes "3 * (len div n) = len" and "0 < len" and "0 < (n::nat)"
  shows "n = 3 \<or> (n = 2 \<and> len = 3)"
proof -
  define q where "q = len div n"
  from assms have q: "0 < q" "len = 3 * q" by (auto simp: q_def)
  have "n * q \<le> len" unfolding q_def by simp
  with q have "n * q \<le> 3 * q" by simp
  with q(1) have n3: "n \<le> 3" by simp
  have "len < n * q + n"
    using assms(3) dividend_less_times_div [of n len] by (simp add: q_def mult.commute)
  with q have lt: "3 * q < n * q + n" by simp
  from n3 assms(3) have "n = 1 \<or> n = 2 \<or> n = 3" by arith
  then show ?thesis
  proof (elim disjE)
    assume "n = 1" with lt q show ?thesis by simp
  next
    assume "n = 2" with lt q show ?thesis by simp
  next
    assume "n = 3" then show ?thesis by simp
  qed
qed

text \<open>
  Claim C6. When \<open>get_combat_normalized_amino_acid_values\<close> reaches the call of the
  batch-correction procedure, the batch vector has one label for every column name,
  indexed by the unique column labels; the label of sample \<open>s\<close> is \<open>s div 3\<close>, the
  groups being the literal triples of the source; and two samples of the same
  consecutive group of \<open>n\<close> samples have the same label. The call is reached only for
  \<open>n = 3\<close>, or for \<open>n = 2\<close> with three samples (one batch).
\<close>

theorem combat_batch_labels:
  assumes run: "combat_arguments n sharp data colnames = Inr (table, batch)"
  shows "length batch = length colnames
     \<and> map fst batch = unique_cols sharp colnames
     \<and> (\<forall>s < length colnames. snd (batch ! s) = int (s div 3))
     \<and> (\<forall>s < length colnames. \<forall>s' < length colnames.
           s div n = s' div n \<longrightarrow> snd (batch ! s) = snd (batch ! s'))
     \<and> (n = 3 \<or> (n = 2 \<and> length colnames = 3))"
proof -
  let ?m = "length colnames div n"
  let ?batches = "concat (map (\<lambda>i. [int i, int i, int i]) [0..<?m])"
  have cols: "length (unique_cols sharp colnames) = length colnames"
    by (simp add: unique_cols_def)
  from run have n: "0 < n"
    by (auto simp: combat_arguments_def assign_batches_def Let_def split: if_splits)
  with run have ne: "?batches \<noteq> []" and len: "length ?batches = length colnames"
    and batch: "batch = zip (unique_cols sharp colnames) ?batches"
    by (auto simp: combat_arguments_def assign_batches_def Let_def cols split: if_splits)
  from len have m: "3 * ?m = length colnames" by (simp add: triples_length)
  from ne len have pos: "0 < length colnames" by auto
  have a: "length batch = length colnames" using batch len cols by simp
  have b: "map fst batch = unique_cols sharp colnames" using batch len cols by simp
  have c: "snd (batch ! s) = int (s div 3)" if "s < length colnames" for s
  proof -
    from that m have "s < 3 * ?m" by simp
    from triples_nth [OF this] that batch len cols show ?thesis by simp
  qed
  from triple_groups [OF m pos n] have e: "n = 3 \<or> (n = 2 \<and> length colnames = 3)" .
  have d: "snd (batch ! s) = snd (batch ! s')"
    if "s < length colnames" "s' < length colnames" "s div n = s' div n" for s s'
    using e
  proof
    assume "n = 3"
    with that c show ?thesis by simp
  next
    assume "n = 2 \<and> length colnames = 3"
    with that have "s div 3 = 0" "s' div 3 = 0" by simp_all
    with that c show ?thesis by simp
  qed
  from a b c d e show ?thesis by blast
qed

theorem combat_batch_labels_witness:
  "combat_arguments 3 ''#'' [[1, 2, 3, 4, 5, 6]] [''a'', ''a'', ''a'', ''b'', ''b'', ''b'']
     = Inr (([''a#0'', ''a#1'', ''a#2'', ''b#3'', ''b#4'', ''b#5''], [[1, 2, 3, 4, 5, 6]]),
            [(''a#0'', 0), (''a#1'', 0), (''a#2'', 0), (''b#3'', 1), (''b#4'', 1), (''b#5'', 1)])
   \<and> length [(''a#0'', 0 :: int), (''a#1'', 0), (''a#2'', 0), (''b#3'', 1), (''b#4'', 1), (''b#5'', 1)]
       = length [''a'', ''a'', ''a'', ''b'', ''b'', ''b'']"
proof -
  have run: "combat_arguments 3 ''#'' [[1, 2, 3, 4, 5, 6]] [''a'', ''a'', ''a'', ''b'', ''b'', ''b'']
     = Inr (([''a#0'', ''a#1'', ''a#2'', ''b#3'', ''b#4'', ''b#5''], [[1, 2, 3, 4, 5, 6]]),
            [(''a#0'', 0), (''a#1'', 0), (''a#2'', 0), (''b#3'', 1), (''b#4'', 1), (''b#5'', 1)])"
  proof -
    have cols: "unique_cols ''#'' [''a'', ''a'', ''a'', ''b'', ''b'', ''b'']
        = [''a#0'', ''a#1'', ''a#2'', ''b#3'', ''b#4'', ''b#5'']"
      by code_simp
    show ?thesis
      by (simp add: combat_arguments_def assign_batches_def cols n_cols_def upt_rec)
  qed
  from combat_batch_labels [OF run] run show ?thesis by blast
qed

section \<open>Properties of the autoencoder\<close>

text \<open>
  Claim C9. For every input and every value of the parameters, \<open>forward\<close> is \<open>encode\<close>
  followed by \<open>decode\<close> (an error of \<open>encode\<close> being the error of \<open>forward\<close>).
\<close>

theorem AE_forward_is_decode_of_encode:
  "AE_forward self features =
     (case AE_encode self features of
        Inl e \<Rightarrow> Inl e
      | Inr encoded \<Rightarrow> AE_decode self encoded)"
  by (simp add: AE_forward_def AE_encode_def AE_decode_def split: sum.splits)

end
